theory Spec2Isabelle
  imports Main
begin

section \<open>The tile map of src/map/map.py\<close>

text \<open>
  \<open>TileMap\<close> keeps the terrain of every cell in the dictionary \<open>self.terrains\<close>, keyed by the
  coordinate pair. A terrain refers to the unit standing on it; the unit object carries its own
  coordinate, and \<open>unit.move\<close> changes it in place. Units are therefore kept in a store indexed
  by an object identity, and a terrain holds the identity of its occupant.

  Python exceptions are values of \<open>error\<close>. A method that mutates the map returns the exception
  it raised (if any) together with the map as the method left it.

  Drawing, sprites, the cursor, the highlight layer and the event loop are rendering
  collaborators and have no field in the model.
\<close>

type_synonym coord = "int \<times> int"

type_synonym uid = nat

datatype error = KeyError | ValueError | IndexError | AttributeError | TypeError

text \<open>
  The unit objects come from the module \<open>unit\<close>, which is not among the sources. The fields
  are the ones map.py reads: \<open>unit.coord\<close>, \<open>unit.movement\<close>, \<open>unit.played\<close>, the result
  of \<open>unit.get_weapon_range()\<close> and of \<open>unit.get_allowed_terrains()\<close>.
\<close>

record unit_rec =
  coord :: coord
  movement :: int
  played :: bool
  weapon_range :: "int \<times> int"
  allowed_terrains :: "string list"

text \<open>
  Modelled from the spec: \<open>Terrain\<close> of map.pathfinder is missing. map.py reads
  \<open>terrain.allowed\<close> (iterated tag by tag) and reads and writes \<open>terrain.unit\<close>.
\<close>

record terrain =
  allowed :: "string list"
  unit :: "uid option"

text \<open>
  \<open>self.units_manager\<close> (module \<open>unit\<close>, missing) answers the two roster questions the map
  asks: \<open>active_team.is_mine(unit)\<close> and \<open>are_enemies(unit1, unit2)\<close>.
\<close>

record units_manager =
  is_mine :: "uid \<Rightarrow> bool"
  enemy :: "uid \<Rightarrow> uid \<Rightarrow> bool"

record tilemap =
  w :: int
  h :: int
  terrains :: "coord \<rightharpoonup> terrain"
  units :: "uid \<Rightarrow> unit_rec"
  manager :: units_manager
  prev_sel :: "coord option"
  curr_sel :: "coord option"
  move_area :: "coord list"
  attack_area :: "coord list"
  arrow :: "coord list"
  return_path :: "coord list option"
  vx :: int
  vy :: int
  menus :: nat

text \<open>
  \<open>self.path = Pathfinder(self)\<close>: the class is in map.pathfinder, which is missing. Its two
  methods read the map they were built on, so they are functions of the map here, and every
  method of the map that calls them takes the pathfinder as a parameter.
\<close>

record pathfinder =
  shortest_path :: "tilemap \<Rightarrow> coord \<Rightarrow> coord \<Rightarrow> int \<Rightarrow> coord list"
  area_of :: "tilemap \<Rightarrow> coord \<Rightarrow> int \<Rightarrow> coord list"

subsection \<open>Reading the grid\<close>

definition getitem :: "tilemap \<Rightarrow> coord \<Rightarrow> error + terrain" where
  "getitem s c = (case terrains s c of None \<Rightarrow> Inl KeyError | Some t \<Rightarrow> Inr t)"

definition check_coord :: "tilemap \<Rightarrow> coord \<Rightarrow> bool" where
  "check_coord s c = (case c of (x, y) \<Rightarrow> 0 \<le> x \<and> x < w s \<and> 0 \<le> y \<and> y < h s)"

definition neighbors :: "tilemap \<Rightarrow> coord \<Rightarrow> error + coord list" where
  "neighbors s c =
     (if \<not> check_coord s c then Inl ValueError
      else case c of (x, y) \<Rightarrow>
        Inr (filter (check_coord s) [(x + 1, y), (x - 1, y), (x, y + 1), (x, y - 1)]))"

definition get_unit :: "tilemap \<Rightarrow> coord \<Rightarrow> error + uid option" where
  "get_unit s c = (case terrains s c of None \<Rightarrow> Inl KeyError | Some t \<Rightarrow> Inr (unit t))"

text \<open>
  The properties \<open>curr_unit\<close> and \<open>prev_unit\<close> catch the KeyError of a selection that is
  \<open>None\<close> or has no terrain.
\<close>

definition unit_at :: "tilemap \<Rightarrow> coord option \<Rightarrow> uid option" where
  "unit_at s sel =
     (case sel of None \<Rightarrow> None
      | Some c \<Rightarrow> (case terrains s c of None \<Rightarrow> None | Some t \<Rightarrow> unit t))"

definition curr_unit :: "tilemap \<Rightarrow> uid option" where
  "curr_unit s = unit_at s (curr_sel s)"

definition prev_unit :: "tilemap \<Rightarrow> uid option" where
  "prev_unit s = unit_at s (prev_sel s)"

subsection \<open>Moving a unit\<close>

text \<open>\<open>self.terrains[c].unit = v\<close>\<close>

definition set_unit :: "tilemap \<Rightarrow> coord \<Rightarrow> uid option \<Rightarrow> error + tilemap" where
  "set_unit s c v =
     (case terrains s c of
        None \<Rightarrow> Inl KeyError
      | Some t \<Rightarrow> Inr (s\<lparr>terrains := (terrains s)(c \<mapsto> t\<lparr>unit := v\<rparr>)\<rparr>))"

text \<open>
  Modelled from the spec: \<open>unit.move(coord)\<close> of the missing module \<open>unit\<close> updates the
  unit's coordinate.
\<close>

definition unit_move :: "tilemap \<Rightarrow> uid \<Rightarrow> coord \<Rightarrow> tilemap" where
  "unit_move s u c = s\<lparr>units := (units s)(u := (units s u)\<lparr>coord := c\<rparr>)\<rparr>"

text \<open>
  The animation loop of \<open>move_animation\<close>: \<open>find_sprite\<close> finds no sprite for a missing
  unit, so the callback's \<open>sprite.move_animation\<close> raises AttributeError; for a unit it reads
  \<open>px_path[0]\<close>, which raises IndexError on an empty path. The path is returned as it was
  given.
\<close>

definition play_path :: "uid option \<Rightarrow> coord list \<Rightarrow> error + coord list" where
  "play_path uo p =
     (case uo of
        None \<Rightarrow> Inl AttributeError
      | Some u \<Rightarrow> if p = [] then Inl IndexError else Inr p)"

text \<open>
  \<open>move_animation\<close> asks the pathfinder when it is given no path (\<open>None\<close> or an empty list)
  and plays the path.
\<close>

definition move_animation ::
  "pathfinder \<Rightarrow> tilemap \<Rightarrow> uid \<Rightarrow> coord \<Rightarrow> coord list option \<Rightarrow> error + coord list" where
  "move_animation pf s u target path =
     (let p = (case path of
                 None \<Rightarrow> shortest_path pf s (coord (units s u)) target (movement (units s u))
               | Some q \<Rightarrow>
                   if q = [] then shortest_path pf s (coord (units s u)) target (movement (units s u))
                   else q)
      in play_path (Some u) p)"

text \<open>\<open>list.pop()\<close> followed by \<open>reverse()\<close> and \<open>append(x)\<close>, as \<open>move\<close> applies them.\<close>

definition pop_reverse_append :: "coord list \<Rightarrow> coord \<Rightarrow> error + coord list" where
  "pop_reverse_append p x = (if p = [] then Inl IndexError else Inr (rev (butlast p) @ [x]))"

definition move :: "pathfinder \<Rightarrow> tilemap \<Rightarrow> uid \<Rightarrow> coord \<Rightarrow> error option \<times> tilemap" where
  "move pf s u new_coord =
     (if coord (units s u) \<noteq> new_coord then
        (case get_unit s new_coord of
           Inl e \<Rightarrow> (Some e, s)
         | Inr (Some v) \<Rightarrow> (Some ValueError, s)
         | Inr None \<Rightarrow>
             (case move_animation pf s u new_coord None of
                Inl e \<Rightarrow> (Some e, s)
              | Inr p \<Rightarrow>
                  (case pop_reverse_append p (coord (units s u)) of
                     Inl e \<Rightarrow> (Some e, s\<lparr>return_path := Some p\<rparr>)
                   | Inr r \<Rightarrow>
                       (let s1 = s\<lparr>return_path := Some r\<rparr> in
                        case set_unit s1 (coord (units s1 u)) None of
                          Inl e \<Rightarrow> (Some e, s1)
                        | Inr s2 \<Rightarrow>
                            (case set_unit s2 new_coord (Some u) of
                               Inl e \<Rightarrow> (Some e, s2)
                             | Inr s3 \<Rightarrow> (None, unit_move s3 u new_coord))))))
      else (None, s))"

text \<open>
  \<open>move_undo\<close> calls \<open>move_animation\<close> only with a stored path that is not empty, so the
  animation plays that path as it is and the pathfinder is not asked.
\<close>

definition reset_selection :: "tilemap \<Rightarrow> tilemap" where
  "reset_selection s =
     s\<lparr>curr_sel := None, prev_sel := None, move_area := [], attack_area := [], arrow := []\<rparr>"

definition move_undo :: "tilemap \<Rightarrow> error option \<times> tilemap" where
  "move_undo s =
     (if curr_sel s \<noteq> prev_sel s then
        (let uo = curr_unit s in
         case (case return_path s of
                 None \<Rightarrow> Inr s
               | Some r \<Rightarrow>
                   if r = [] then Inr s
                   else (case play_path uo r of
                           Inl e \<Rightarrow> Inl e
                         | Inr p \<Rightarrow> Inr (s\<lparr>return_path := None\<rparr>))) of
           Inl e \<Rightarrow> (Some e, s)
         | Inr s1 \<Rightarrow>
             (case prev_sel s1 of
                None \<Rightarrow> (Some KeyError, s1)
              | Some p \<Rightarrow>
                  (case set_unit s1 p uo of
                     Inl e \<Rightarrow> (Some e, s1)
                   | Inr s2 \<Rightarrow>
                       (case curr_sel s2 of
                          None \<Rightarrow> (Some KeyError, s2)
                        | Some c \<Rightarrow>
                            (case set_unit s2 c None of
                               Inl e \<Rightarrow> (Some e, s2)
                             | Inr s3 \<Rightarrow>
                                 (case uo of
                                    None \<Rightarrow> (Some AttributeError, s3)
                                  | Some u \<Rightarrow> (None, reset_selection (unit_move s3 u p))))))))
      else (None, reset_selection s))"

subsection \<open>Obstacles\<close>

text \<open>
  Modelled from the spec: \<open>units_manager.are_enemies\<close> is missing. The enemy relation is the
  roster's; asked about an absent unit it raises AttributeError, the exception
  \<open>is_obstacle\<close> catches.
\<close>

definition are_enemies :: "tilemap \<Rightarrow> uid option \<Rightarrow> uid option \<Rightarrow> error + bool" where
  "are_enemies s a b =
     (case a of
        None \<Rightarrow> Inl AttributeError
      | Some x \<Rightarrow> (case b of None \<Rightarrow> Inl AttributeError | Some y \<Rightarrow> Inr (enemy (manager s) x y)))"

text \<open>The \<open>for allowed in terrain.allowed\<close> loop of \<open>is_obstacle\<close>.\<close>

fun allowed_loop :: "string list \<Rightarrow> string list \<Rightarrow> bool" where
  "allowed_loop unit_allowed [] = True"
| "allowed_loop unit_allowed (a # rest) =
     (if a = ''any'' then False
      else if a = ''none'' then True
      else if a \<in> set unit_allowed then False
      else allowed_loop unit_allowed rest)"

definition is_obstacle :: "tilemap \<Rightarrow> coord \<Rightarrow> uid option \<Rightarrow> error + bool" where
  "is_obstacle s c uo =
     (case terrains s c of
        None \<Rightarrow> Inl KeyError
      | Some t \<Rightarrow>
          (case are_enemies s uo (unit t) of
             Inr b \<Rightarrow> Inr b
           | Inl e \<Rightarrow>
               if e = AttributeError then
                 (case uo of
                    None \<Rightarrow> Inr False
                  | Some u \<Rightarrow> Inr (allowed_loop (allowed_terrains (units s u)) (allowed t)))
               else Inl e))"

subsection \<open>Areas\<close>

text \<open>Modelled from the spec: \<open>utils.distance\<close> is missing; the distance is Manhattan.\<close>

definition distance :: "coord \<Rightarrow> coord \<Rightarrow> int" where
  "distance p q = \<bar>fst p - fst q\<bar> + \<bar>snd p - snd q\<bar>"

definition area :: "tilemap \<Rightarrow> coord \<Rightarrow> int \<Rightarrow> int \<Rightarrow> coord list" where
  "area s center radius hole =
     (case center of (x, y) \<Rightarrow>
        [(i, j). i \<leftarrow> [x - radius..x + radius], j \<leftarrow> [y - radius..y + radius],
                 check_coord s (i, j) \<and> hole \<le> distance (x, y) (i, j)
                 \<and> distance (x, y) (i, j) \<le> radius])"

text \<open>The body of the two loops of \<open>__set_attack_area\<close>, for one cell \<open>p = (i, j)\<close>.\<close>

definition attack_cell ::
  "coord list \<Rightarrow> coord \<Rightarrow> int \<Rightarrow> int \<Rightarrow> coord \<Rightarrow> coord list \<Rightarrow> coord list" where
  "attack_cell ma c min_range max_range p aa =
     (if p \<notin> set ma \<and> p \<notin> set aa then
        (if min_range \<le> distance c p \<and> distance c p \<le> max_range then aa @ [p] else aa)
      else aa)"

definition set_attack_area :: "tilemap \<Rightarrow> coord \<Rightarrow> int \<Rightarrow> int \<Rightarrow> tilemap" where
  "set_attack_area s c min_range max_range =
     (case c of (x, y) \<Rightarrow>
        s\<lparr>attack_area :=
            fold (\<lambda>i. fold (\<lambda>j. attack_cell (move_area s) (x, y) min_range max_range (i, j))
                           [y - max_range..y + max_range])
                 [x - max_range..x + max_range] (attack_area s)\<rparr>)"

definition move_attack_area :: "tilemap \<Rightarrow> error option \<times> tilemap" where
  "move_attack_area s =
     (case curr_unit s of
        None \<Rightarrow> (Some AttributeError, s)
      | Some u \<Rightarrow>
          (case weapon_range (units s u) of (min_range, max_range) \<Rightarrow>
             (None, fold (\<lambda>c s'. set_attack_area s' c min_range max_range) (move_area s)
                      (s\<lparr>attack_area := []\<rparr>))))"

definition still_attack_area :: "tilemap \<Rightarrow> error option \<times> tilemap" where
  "still_attack_area s =
     (case curr_unit s of
        None \<Rightarrow> (Some AttributeError, s)
      | Some u \<Rightarrow>
          (case weapon_range (units s u) of (min_range, max_range) \<Rightarrow>
             (let s1 = s\<lparr>attack_area := [], move_area := []\<rparr> in
              case curr_sel s1 of
                None \<Rightarrow> (Some TypeError, s1)
              | Some c \<Rightarrow> (None, set_attack_area s1 c min_range max_range))))"

text \<open>
  \<open>update_move_area\<close>: \<open>self.curr_unit.movement\<close> raises AttributeError when no unit is
  selected, which is the case whenever the selection is \<open>None\<close>.
\<close>

definition update_move_area :: "pathfinder \<Rightarrow> tilemap \<Rightarrow> error option \<times> tilemap" where
  "update_move_area pf s =
     (case curr_unit s of
        None \<Rightarrow> (Some AttributeError, s)
      | Some u \<Rightarrow>
          (case curr_sel s of
             None \<Rightarrow> (Some AttributeError, s)
           | Some c \<Rightarrow> (None, s\<lparr>move_area := area_of pf s c (movement (units s u))\<rparr>)))"

subsection \<open>Selection\<close>

definition can_selection_move :: "tilemap \<Rightarrow> bool" where
  "can_selection_move s =
     (case prev_unit s of
        None \<Rightarrow> False
      | Some u \<Rightarrow>
          \<not> played (units s u) \<and> is_mine (manager s) u
          \<and> (case curr_sel s of None \<Rightarrow> False | Some c \<Rightarrow> c \<in> set (move_area s)))"

text \<open>
  \<open>action_menu\<close> stops the scrolling and adds an \<open>ActionMenu\<close> child; the menu's position is
  computed from \<open>self.curr_sel\<close>, which must be a coordinate.
\<close>

definition action_menu :: "tilemap \<Rightarrow> error option \<times> tilemap" where
  "action_menu s =
     (let s1 = s\<lparr>vx := 0, vy := 0\<rparr> in
      case curr_sel s1 of
        None \<Rightarrow> (Some TypeError, s1)
      | Some c \<Rightarrow> (None, s1\<lparr>menus := Suc (menus s1)\<rparr>))"

text \<open>\<open>self.update_move_area()\<close> followed by \<open>self.move_attack_area()\<close>.\<close>

definition show_areas :: "pathfinder \<Rightarrow> tilemap \<Rightarrow> error option \<times> tilemap" where
  "show_areas pf s =
     (case update_move_area pf s of
        (Some e, s1) \<Rightarrow> (Some e, s1)
      | (None, s1) \<Rightarrow> move_attack_area s1)"

definition select :: "pathfinder \<Rightarrow> tilemap \<Rightarrow> coord \<Rightarrow> error option \<times> tilemap" where
  "select pf s c =
     (let s1 = s\<lparr>prev_sel := curr_sel s, curr_sel := Some c, arrow := []\<rparr> in
      if prev_sel s1 = None then
        (case get_unit s1 c of
           Inl e \<Rightarrow> (Some e, s1)
         | Inr None \<Rightarrow> (None, s1\<lparr>move_area := [], attack_area := []\<rparr>)
         | Inr (Some u) \<Rightarrow>
             if played (units s1 u) then (None, s1\<lparr>move_area := [], attack_area := []\<rparr>)
             else show_areas pf s1)
      else if prev_unit s1 \<noteq> None \<and> curr_unit s1 \<noteq> None then
        (case prev_unit s1 of
           None \<Rightarrow> (Some AttributeError, s1)
         | Some pu \<Rightarrow>
             if prev_sel s1 = curr_sel s1 \<and> \<not> played (units s1 pu) \<and> is_mine (manager s1) pu
             then action_menu s1
             else show_areas pf s1)
      else if can_selection_move s1 then
        (case prev_unit s1 of
           None \<Rightarrow> (Some AttributeError, s1)
         | Some pu \<Rightarrow>
             (case move pf s1 pu c of
                (Some e, s2) \<Rightarrow> (Some e, s2)
              | (None, s2) \<Rightarrow> action_menu s2))
      else
        (let s2 = (reset_selection s1)\<lparr>curr_sel := Some c\<rparr> in
         case curr_unit s2 of
           None \<Rightarrow> (None, s2)
         | Some u \<Rightarrow> if \<not> played (units s2 u) then show_areas pf s2 else (None, s2)))"

subsection \<open>Loading the terrains\<close>

text \<open>
  \<open>__init__\<close> fills \<open>self.terrains\<close> from the tile layers of the loaded map, the topmost
  layer first: a cell gets a terrain when it has a tile and no layer above gave it one. The
  tmx loader is an external library; a tile layer is the list of its cells, a cell is
  \<open>(x, y, tile)\<close>, and of a tile the model keeps the traversal tags.

  Modelled from the spec: the constructor \<open>Terrain(tile, unit)\<close> of map.pathfinder is missing;
  it keeps the tile's traversal tags and the unit.
\<close>

type_synonym tile = "string list"

type_synonym cell = "int \<times> int \<times> tile option"

datatype layer = Layer "cell list" | ObjectLayer

definition Terrain :: "tile \<Rightarrow> uid option \<Rightarrow> terrain" where
  "Terrain tile uo = \<lparr>allowed = tile, unit = uo\<rparr>"

definition add_cell ::
  "(coord \<Rightarrow> uid list) \<Rightarrow> cell \<Rightarrow> (coord \<rightharpoonup> terrain) \<Rightarrow> (coord \<rightharpoonup> terrain)" where
  "add_cell get_units cl ts =
     (case cl of (x, y, tile_opt) \<Rightarrow>
        (let us = get_units (x, y);
             uo = (case us of [] \<Rightarrow> None | v # rest \<Rightarrow> Some v)
         in case tile_opt of
              None \<Rightarrow> ts
            | Some tile \<Rightarrow> if ts (x, y) = None then ts((x, y) \<mapsto> Terrain tile uo) else ts))"

definition load_terrains :: "(coord \<Rightarrow> uid list) \<Rightarrow> layer list \<Rightarrow> (coord \<rightharpoonup> terrain)" where
  "load_terrains get_units layers =
     fold (\<lambda>l ts. case l of Layer cells \<Rightarrow> fold (add_cell get_units) cells ts | ObjectLayer \<Rightarrow> ts)
          (rev layers) Map.empty"

text \<open>The map as \<open>__init__\<close> leaves it.\<close>

definition init_map ::
  "int \<Rightarrow> int \<Rightarrow> layer list \<Rightarrow> (coord \<Rightarrow> uid list) \<Rightarrow> (uid \<Rightarrow> unit_rec) \<Rightarrow> units_manager \<Rightarrow> tilemap" where
  "init_map width height layers get_units us um =
     \<lparr>w = width, h = height, terrains = load_terrains get_units layers, units = us,
      manager = um, prev_sel = None, curr_sel = None, move_area = [], attack_area = [],
      arrow = [], return_path = None, vx = 0, vy = 0, menus = 0\<rparr>"

subsection \<open>A pathfinder\<close>

text \<open>
  Modelled from the spec: \<open>Pathfinder\<close> of map.pathfinder is missing. Every edge costs one
  movement point; a cell is passable for the mover when \<open>is_obstacle\<close> answers \<open>False\<close>; the
  destination's own occupant is ignored; neighbours are tried in the fixed order of
  \<open>neighbors\<close>. \<open>reachable_area\<close> expands the frontier once per movement point and always
  contains the origin; \<open>find_path\<close> returns a minimum-cost path from start to goal (start
  first, goal last), or the empty list when the goal is out of reach within the budget.
  The mover is the unit standing on the start cell.
\<close>

definition passable :: "tilemap \<Rightarrow> uid option \<Rightarrow> coord \<Rightarrow> bool" where
  "passable s uo c = (is_obstacle s c uo = Inr False)"

definition steps :: "tilemap \<Rightarrow> uid option \<Rightarrow> coord option \<Rightarrow> coord \<Rightarrow> coord list" where
  "steps s uo goal c =
     (case neighbors s c of
        Inl e \<Rightarrow> []
      | Inr ns \<Rightarrow> filter (\<lambda>q. Some q = goal \<or> passable s uo q) ns)"

fun flood :: "tilemap \<Rightarrow> uid option \<Rightarrow> nat \<Rightarrow> coord list \<Rightarrow> coord list" where
  "flood s uo 0 reached = reached"
| "flood s uo (Suc n) reached =
     flood s uo n (remdups (reached @ concat (map (steps s uo None) reached)))"

definition reachable_area :: "tilemap \<Rightarrow> coord \<Rightarrow> int \<Rightarrow> coord list" where
  "reachable_area s origin budget = flood s (unit_at s (Some origin)) (nat budget) [origin]"

fun search :: "tilemap \<Rightarrow> uid option \<Rightarrow> coord \<Rightarrow> nat \<Rightarrow> coord list list \<Rightarrow> coord list" where
  "search s uo goal 0 paths =
     (case filter (\<lambda>p. last p = goal) paths of [] \<Rightarrow> [] | p # rest \<Rightarrow> p)"
| "search s uo goal (Suc n) paths =
     (case filter (\<lambda>p. last p = goal) paths of
        [] \<Rightarrow> search s uo goal n
                [p @ [q]. p \<leftarrow> paths, q \<leftarrow> steps s uo (Some goal) (last p), q \<notin> set p]
      | p # rest \<Rightarrow> p)"

definition find_path :: "tilemap \<Rightarrow> coord \<Rightarrow> coord \<Rightarrow> int \<Rightarrow> coord list" where
  "find_path s start goal budget = search s (unit_at s (Some start)) goal (nat budget) [[start]]"

definition spec_pathfinder :: pathfinder where
  "spec_pathfinder = \<lparr>shortest_path = find_path, area_of = reachable_area\<rparr>"

subsection \<open>Example maps\<close>

text \<open>
  A 2 by 2 map of open ground with two units that have not played: unit 0 of the active team
  on (0, 0) and unit 1, its enemy, on (1, 0). Both move 1 cell and attack at distance 1.
\<close>

definition soldier :: "coord \<Rightarrow> unit_rec" where
  "soldier c = \<lparr>coord = c, movement = 1, played = False, weapon_range = (1, 1),
                allowed_terrains = [''grass'']\<rparr>"

definition duel_units :: "uid \<Rightarrow> unit_rec" where
  "duel_units u = (if u = 0 then soldier (0, 0) else soldier (1, 0))"

definition duel_manager :: units_manager where
  "duel_manager = \<lparr>is_mine = (\<lambda>u. u = 0), enemy = (\<lambda>a b. (a = 0) \<noteq> (b = 0))\<rparr>"

definition duel_map :: tilemap where
  "duel_map =
     init_map 2 2
       [Layer [(0, 0, Some [''any'']), (1, 0, Some [''any'']),
               (0, 1, Some [''any'']), (1, 1, Some [''any''])]]
       (\<lambda>c. filter (\<lambda>u. coord (duel_units u) = c) [0, 1]) duel_units duel_manager"

text \<open>The same map with unit 0 selected and the cells (0, 0) and (0, 1) as its move area.\<close>

definition duel_picked :: tilemap where
  "duel_picked = duel_map\<lparr>curr_sel := Some (0, 0), move_area := [(0, 0), (0, 1)]\<rparr>"

text \<open>A single cell that nothing may cross, with nobody on it.\<close>

definition wall_map :: tilemap where
  "wall_map = init_map 1 1 [Layer [(0, 0, Some [''none''])]] (\<lambda>c. []) duel_units duel_manager"

text \<open>A single cell whose only tile layer has no tile there.\<close>

definition hole_map :: tilemap where
  "hole_map = init_map 1 1 [Layer [(0, 0, None)]] (\<lambda>c. []) duel_units duel_manager"

text \<open>A 5 by 5 grid.\<close>

definition grid5 :: tilemap where
  "grid5 = init_map 5 5 [] (\<lambda>c. []) duel_units duel_manager"

section \<open>Facts about the example maps\<close>

lemma duel_terrains:
  "terrains duel_map (0, 0) = Some \<lparr>allowed = [''any''], unit = Some 0\<rparr>"
  "terrains duel_map (1, 0) = Some \<lparr>allowed = [''any''], unit = Some 1\<rparr>"
  "terrains duel_map (0, 1) = Some \<lparr>allowed = [''any''], unit = None\<rparr>"
  "terrains duel_map (1, 1) = Some \<lparr>allowed = [''any''], unit = None\<rparr>"
  by (simp_all add: duel_map_def init_map_def load_terrains_def add_cell_def Terrain_def
      duel_units_def soldier_def)

lemma duel_fields:
  "w duel_map = 2" "h duel_map = 2" "units duel_map = duel_units" "manager duel_map = duel_manager"
  "prev_sel duel_map = None" "curr_sel duel_map = None" "move_area duel_map = []"
  "attack_area duel_map = []" "return_path duel_map = None"
  by (simp_all add: duel_map_def init_map_def)

lemma duel_coords:
  "coord (duel_units 0) = (0, 0)" "coord (duel_units (Suc 0)) = (1, 0)"
  "movement (duel_units u) = 1" "played (duel_units u) = False"
  "weapon_range (duel_units u) = (1, 1)"
  by (simp_all add: duel_units_def soldier_def)

lemma duel_path: "find_path duel_map (0, 0) (0, 1) 1 = [(0, 0), (0, 1)]"
  by code_simp

section \<open>What a successful move leaves behind\<close>

lemma move_result:
  assumes "coord (units s u) = a" and "a \<noteq> d"
    and "terrains s d = Some td" and "unit td = None"
    and "terrains s a = Some ta"
    and "shortest_path pf s a d (movement (units s u)) = p" and "p \<noteq> []"
  shows "move pf s u d =
           (None, s\<lparr>return_path := Some (rev (butlast p) @ [a]),
                    terrains := (terrains s)(a \<mapsto> ta\<lparr>unit := None\<rparr>, d \<mapsto> td\<lparr>unit := Some u\<rparr>),
                    units := (units s)(u := (units s u)\<lparr>coord := d\<rparr>)\<rparr>)"
  using assms
  by (simp add: move_def get_unit_def move_animation_def play_path_def pop_reverse_append_def
      set_unit_def unit_move_def Let_def)

section \<open>The obstacle test, case by case\<close>

lemma allowed_loop_find:
  "allowed_loop ua ts =
     (case find (\<lambda>a. a = ''any'' \<or> a = ''none'' \<or> a \<in> set ua) ts of
        None \<Rightarrow> True
      | Some a \<Rightarrow> a = ''none'')"
  by (induction ts) auto

lemma allowed_loop_tags:
  "''any'' \<notin> set ts \<Longrightarrow> ''none'' \<notin> set ts \<Longrightarrow> allowed_loop ua ts = (set ts \<inter> set ua = {})"
  by (induction ts) auto

lemma is_obstacle_no_mover: "terrains s c = Some t \<Longrightarrow> is_obstacle s c None = Inr False"
  by (simp add: is_obstacle_def are_enemies_def)

lemma is_obstacle_occupied:
  "terrains s c = Some t \<Longrightarrow> unit t = Some v \<Longrightarrow>
   is_obstacle s c (Some u) = Inr (enemy (manager s) u v)"
  by (simp add: is_obstacle_def are_enemies_def)

lemma is_obstacle_empty:
  "terrains s c = Some t \<Longrightarrow> unit t = None \<Longrightarrow>
   is_obstacle s c (Some u) = Inr (allowed_loop (allowed_terrains (units s u)) (allowed t))"
  by (simp add: is_obstacle_def are_enemies_def)

lemma wall_terrain: "terrains wall_map (0, 0) = Some \<lparr>allowed = [''none''], unit = None\<rparr>"
  by (simp add: wall_map_def init_map_def load_terrains_def add_cell_def Terrain_def)

section \<open>The cells of \<open>area\<close>\<close>

lemma distance_box:
  "distance (x, y) (i, j) \<le> r \<Longrightarrow> x - r \<le> i \<and> i \<le> x + r \<and> y - r \<le> j \<and> j \<le> y + r"
  by (simp add: distance_def) linarith

lemma set_area:
  "set (area s c r hl) = {p. check_coord s p \<and> hl \<le> distance c p \<and> distance c p \<le> r}"
proof (cases c)
  case (Pair x y)
  show ?thesis
    unfolding Pair area_def
    using distance_box [of x y _ _ r] by (auto simp: split_def)
qed

lemma distinct_pairs:
  "distinct is \<Longrightarrow> distinct js \<Longrightarrow> distinct [(i, j). i \<leftarrow> is, j \<leftarrow> js, P i j]"
proof (induction "is")
  case Nil
  then show ?case by simp
next
  case (Cons i "is")
  have "distinct [(i, j). j \<leftarrow> js, P i j]"
    using Cons.prems(2) by (induction js) auto
  with Cons show ?case by auto
qed

lemma distinct_area: "distinct (area s c r hl)"
  by (cases c) (simp add: area_def distinct_pairs)

lemma upto3: "[x - 1..x + 1] = [x - 1, x, x + (1::int)]"
proof -
  have "[x - 1..x + 1] = (x - 1) # [x..x + 1]"
    by (subst upto_rec1) simp_all
  also have "[x..x + 1] = x # [x + 1..x + 1]"
    by (subst upto_rec1) simp_all
  finally show ?thesis by simp
qed

lemma area_interior:
  assumes "1 \<le> x" "x + 1 < w s" "1 \<le> y" "y + 1 < h s"
  shows "area s (x, y) 1 1 = [(x - 1, y), (x, y - 1), (x, y + 1), (x + 1, y)]"
  using assms by (simp add: area_def upto3 check_coord_def distance_def)

section \<open>The cells \<open>__set_attack_area\<close> appends\<close>

lemma set_attack_cell:
  "set (attack_cell ma c mn mx p aa) =
     set aa \<union> (if p \<notin> set ma \<and> mn \<le> distance c p \<and> distance c p \<le> mx then {p} else {})"
  by (auto simp: attack_cell_def)

lemma distinct_attack_cell: "distinct aa \<Longrightarrow> distinct (attack_cell ma c mn mx p aa)"
  by (simp add: attack_cell_def)

lemma set_inner_fold:
  "set (fold (\<lambda>j. attack_cell ma c mn mx (i, j)) js aa) =
     set aa \<union> {(i', j). i' = i \<and> j \<in> set js \<and> (i, j) \<notin> set ma
                        \<and> mn \<le> distance c (i, j) \<and> distance c (i, j) \<le> mx}"
  by (induction js arbitrary: aa) (auto simp: set_attack_cell)

lemma distinct_inner_fold:
  "distinct aa \<Longrightarrow> distinct (fold (\<lambda>j. attack_cell ma c mn mx (i, j)) js aa)"
  by (induction js arbitrary: aa) (simp_all add: distinct_attack_cell)

lemma set_outer_fold:
  "set (fold (\<lambda>i. fold (\<lambda>j. attack_cell ma c mn mx (i, j)) js) is aa) =
     set aa \<union> {(i, j). i \<in> set is \<and> j \<in> set js \<and> (i, j) \<notin> set ma
                       \<and> mn \<le> distance c (i, j) \<and> distance c (i, j) \<le> mx}"
  by (induction "is" arbitrary: aa) (auto simp: set_inner_fold)

lemma distinct_outer_fold:
  "distinct aa \<Longrightarrow> distinct (fold (\<lambda>i. fold (\<lambda>j. attack_cell ma c mn mx (i, j)) js) is aa)"
  by (induction "is" arbitrary: aa) (simp_all add: distinct_inner_fold)

lemma set_attack_area_cells:
  "set (attack_area (set_attack_area s c mn mx)) =
     set (attack_area s) \<union> ({p. mn \<le> distance c p \<and> distance c p \<le> mx} - set (move_area s))"
proof (cases c)
  case (Pair x y)
  show ?thesis
    unfolding Pair set_attack_area_def
    using distance_box [of x y _ _ mx] by (auto simp: set_outer_fold)
qed

lemma set_attack_area_frame:
  "move_area (set_attack_area s c mn mx) = move_area s"
  "curr_sel (set_attack_area s c mn mx) = curr_sel s"
  "terrains (set_attack_area s c mn mx) = terrains s"
  "units (set_attack_area s c mn mx) = units s"
  by (cases c; simp add: set_attack_area_def)+

lemma set_attack_area_distinct:
  "distinct (attack_area s) \<Longrightarrow> distinct (attack_area (set_attack_area s c mn mx))"
  by (cases c) (simp add: set_attack_area_def distinct_outer_fold)

lemma fold_attack_frame:
  "move_area (fold (\<lambda>c s'. set_attack_area s' c mn mx) cs s) = move_area s"
  by (induction cs arbitrary: s) (simp_all add: set_attack_area_frame)

lemma fold_attack_cells:
  "set (attack_area (fold (\<lambda>c s'. set_attack_area s' c mn mx) cs s)) =
     set (attack_area s)
     \<union> ((\<Union>m\<in>set cs. {p. mn \<le> distance m p \<and> distance m p \<le> mx}) - set (move_area s))"
  by (induction cs arbitrary: s) (auto simp: set_attack_area_cells set_attack_area_frame)

lemma fold_attack_distinct:
  "distinct (attack_area s) \<Longrightarrow>
   distinct (attack_area (fold (\<lambda>c s'. set_attack_area s' c mn mx) cs s))"
  by (induction cs arbitrary: s) (simp_all add: set_attack_area_distinct)

lemma move_attack_area_cells:
  assumes "curr_unit s = Some u" and "weapon_range (units s u) = (mn, mx)"
  shows "fst (move_attack_area s) = None
       \<and> move_area (snd (move_attack_area s)) = move_area s
       \<and> set (attack_area (snd (move_attack_area s))) =
           (\<Union>m\<in>set (move_area s). {p. mn \<le> distance m p \<and> distance m p \<le> mx})
           - set (move_area s)
       \<and> set (attack_area (snd (move_attack_area s))) \<inter> set (move_area (snd (move_attack_area s))) = {}
       \<and> distinct (attack_area (snd (move_attack_area s)))"
proof -
  have r: "move_attack_area s =
             (None, fold (\<lambda>c s'. set_attack_area s' c mn mx) (move_area s) (s\<lparr>attack_area := []\<rparr>))"
    using assms by (simp add: move_attack_area_def)
  show ?thesis
    unfolding r by (auto simp: fold_attack_frame fold_attack_cells fold_attack_distinct)
qed

section \<open>The first pick of \<open>select\<close>\<close>

lemma select_first_empty:
  assumes "curr_sel s = None" and "terrains s c = Some t" and "unit t = None"
  shows "select pf s c =
           (None, s\<lparr>prev_sel := None, curr_sel := Some c, arrow := [],
                    move_area := [], attack_area := []\<rparr>)"
  using assms by (simp add: select_def get_unit_def Let_def)

lemma select_first_played:
  assumes "curr_sel s = None" and "terrains s c = Some t" and "unit t = Some u"
    and "played (units s u)"
  shows "select pf s c =
           (None, s\<lparr>prev_sel := None, curr_sel := Some c, arrow := [],
                    move_area := [], attack_area := []\<rparr>)"
  using assms by (simp add: select_def get_unit_def Let_def)

lemma select_first_fresh:
  assumes "curr_sel s = None" and "terrains s c = Some t" and "unit t = Some u"
    and "\<not> played (units s u)"
  shows "select pf s c =
           move_attack_area
             (s\<lparr>prev_sel := None, curr_sel := Some c, arrow := [],
                move_area := area_of pf (s\<lparr>prev_sel := None, curr_sel := Some c, arrow := []\<rparr>) c
                               (movement (units s u))\<rparr>)"
  using assms
  by (simp add: select_def get_unit_def Let_def show_areas_def update_move_area_def
      curr_unit_def unit_at_def)

text \<open>The branch of \<open>select\<close> that moves the previously selected unit.\<close>

lemma select_moves:
  assumes "curr_sel s = Some a"
    and "terrains s a = Some ta" and "unit ta = Some u"
    and "terrains s b = Some tb" and "unit tb = None"
    and "\<not> played (units s u)" and "is_mine (manager s) u"
    and "b \<in> set (move_area s)"
  shows "select pf s b =
           (case move pf (s\<lparr>prev_sel := Some a, curr_sel := Some b, arrow := []\<rparr>) u b of
              (Some e, s2) \<Rightarrow> (Some e, s2)
            | (None, s2) \<Rightarrow> action_menu s2)"
  using assms
  by (simp add: select_def Let_def prev_unit_def curr_unit_def unit_at_def
      can_selection_move_def)

section \<open>Which coordinates have a terrain\<close>

lemma dom_add_cell:
  "dom (add_cell g cl ts) =
     dom ts \<union> {(x, y). \<exists>tile. cl = (x, y, Some tile)}"
  by (cases cl) (auto simp: add_cell_def Let_def split: option.splits if_splits)

lemma dom_fold_add_cell:
  "dom (fold (add_cell g) cells ts) =
     dom ts \<union> {(x, y). \<exists>tile. (x, y, Some tile) \<in> set cells}"
  by (induction cells arbitrary: ts) (auto simp: dom_add_cell)

lemma dom_fold_layers:
  "dom (fold (\<lambda>l ts. case l of Layer cells \<Rightarrow> fold (add_cell g) cells ts | ObjectLayer \<Rightarrow> ts)
             ls ts) =
     dom ts \<union> {(x, y). \<exists>cells tile. Layer cells \<in> set ls \<and> (x, y, Some tile) \<in> set cells}"
proof (induction ls arbitrary: ts)
  case Nil
  then show ?case by simp
next
  case (Cons l ls)
  show ?case
    by (cases l) (auto simp: Cons.IH dom_fold_add_cell)
qed

lemma dom_load_terrains:
  "dom (load_terrains g layers) =
     {(x, y). \<exists>cells tile. Layer cells \<in> set layers \<and> (x, y, Some tile) \<in> set cells}"
  by (simp add: load_terrains_def dom_fold_layers)

lemma getitem_dom: "(\<exists>t. getitem s c = Inr t) = (c \<in> dom (terrains s))"
  by (auto simp: getitem_def split: option.splits)

lemma getitem_missing: "c \<notin> dom (terrains s) \<Longrightarrow> getitem s c = Inl KeyError"
  by (auto simp: getitem_def split: option.splits)

section \<open>Moving onto an occupied cell\<close>

text \<open>
  C1. If the destination differs from the unit's coordinate and its cell already holds a unit
  (a friend or an enemy), \<open>move\<close> raises ValueError and the map is returned exactly as it was:
  occupancy, the unit's coordinate and the stored undo path included.
\<close>

theorem move_occupied_rejected:
  assumes "coord (units s u) \<noteq> d"
    and "terrains s d = Some t"
    and "unit t = Some v"
  shows "move pf s u d = (Some ValueError, s)"
  using assms by (simp add: move_def get_unit_def)

theorem move_occupied_rejected_witness:
  "coord (units duel_map 0) \<noteq> (1, 0)
   \<and> terrains duel_map (1, 0) = Some \<lparr>allowed = [''any''], unit = Some 1\<rparr>
   \<and> move spec_pathfinder duel_map 0 (1, 0) = (Some ValueError, duel_map)"
proof -
  have a: "coord (units duel_map 0) \<noteq> (1, 0)"
    by (simp add: duel_fields duel_coords)
  have b: "unit \<lparr>allowed = [''any''], unit = Some (1::nat)\<rparr> = Some 1"
    by simp
  show ?thesis
    using a move_occupied_rejected [OF a duel_terrains(2) b, of spec_pathfinder]
    by (simp add: duel_terrains)
qed

section \<open>Moving to the cell the unit stands on\<close>

text \<open>
  C10. \<open>move\<close> with the unit's own coordinate as destination does nothing: no exception, and
  the map (occupancy, the unit's coordinate, the stored undo path) is returned as it was.
\<close>

theorem move_same_coord_noop:
  assumes "coord (units s u) = d"
  shows "move pf s u d = (None, s)"
  using assms by (simp add: move_def)

theorem move_same_coord_noop_witness:
  "coord (units duel_map 0) = (0, 0) \<and> move spec_pathfinder duel_map 0 (0, 0) = (None, duel_map)"
proof -
  have a: "coord (units duel_map 0) = (0, 0)"
    by (simp add: duel_fields duel_coords)
  show ?thesis
    using a move_same_coord_noop [OF a, of spec_pathfinder] by simp
qed

section \<open>A successful move\<close>

text \<open>
  C2. Let unit \<open>u\<close> stand on \<open>a\<close>, let \<open>d \<noteq> a\<close> be a cell without a unit, and let the pathfinder
  return the path \<open>p\<close>, not empty, from \<open>a\<close> to \<open>d\<close>. Then \<open>move\<close> raises nothing, and in the
  map it returns the cell \<open>d\<close> holds \<open>u\<close>, the cell \<open>a\<close> holds nobody and the coordinate of
  \<open>u\<close> is \<open>d\<close>: the three updates are in the one map the call returns. The stored undo path
  is the travelled path without its last cell (the destination), reversed, followed by the old
  coordinate \<open>a\<close>, so it ends at \<open>a\<close>. No other cell and no other unit changes.
\<close>

theorem move_updates_together:
  assumes "coord (units s u) = a" and "a \<noteq> d"
    and "terrains s d = Some td" and "unit td = None"
    and "terrains s a = Some ta"
    and "shortest_path pf s a d (movement (units s u)) = p" and "p \<noteq> []"
  shows "fst (move pf s u d) = None
       \<and> get_unit (snd (move pf s u d)) d = Inr (Some u)
       \<and> get_unit (snd (move pf s u d)) a = Inr None
       \<and> coord (units (snd (move pf s u d)) u) = d
       \<and> return_path (snd (move pf s u d)) = Some (rev (butlast p) @ [a])
       \<and> last (rev (butlast p) @ [a]) = a
       \<and> (\<forall>c. c \<noteq> a \<and> c \<noteq> d \<longrightarrow> terrains (snd (move pf s u d)) c = terrains s c)
       \<and> (\<forall>v. v \<noteq> u \<longrightarrow> units (snd (move pf s u d)) v = units s v)"
  using assms by (simp add: move_result [OF assms] get_unit_def)

theorem move_updates_together_witness:
  "coord (units duel_map 0) = (0, 0)
   \<and> terrains duel_map (0, 1) = Some \<lparr>allowed = [''any''], unit = None\<rparr>
   \<and> shortest_path spec_pathfinder duel_map (0, 0) (0, 1) (movement (units duel_map 0))
       = [(0, 0), (0, 1)]
   \<and> fst (move spec_pathfinder duel_map 0 (0, 1)) = None
   \<and> get_unit (snd (move spec_pathfinder duel_map 0 (0, 1))) (0, 1) = Inr (Some 0)
   \<and> get_unit (snd (move spec_pathfinder duel_map 0 (0, 1))) (0, 0) = Inr None
   \<and> coord (units (snd (move spec_pathfinder duel_map 0 (0, 1))) 0) = (0, 1)
   \<and> return_path (snd (move spec_pathfinder duel_map 0 (0, 1))) = Some [(0, 0), (0, 0)]"
proof -
  have a: "coord (units duel_map 0) = (0, 0)"
    by (simp add: duel_fields duel_coords)
  have b: "(0::int, 0::int) \<noteq> (0, 1)"
    by simp
  have c: "unit \<lparr>allowed = [''any''], unit = None :: uid option\<rparr> = None"
    by simp
  have p: "shortest_path spec_pathfinder duel_map (0, 0) (0, 1) (movement (units duel_map 0))
             = [(0, 0), (0, 1)]"
    by (simp add: spec_pathfinder_def duel_fields duel_coords duel_path)
  have n: "[(0::int, 0::int), (0, 1)] \<noteq> []"
    by simp
  show ?thesis
    using a p move_updates_together [OF a b duel_terrains(3) c duel_terrains(1) p n]
    by (simp add: duel_terrains)
qed

section \<open>Undoing a move\<close>

text \<open>
  C3, as the code has it. \<open>move_undo\<close> restores from the selection: it puts the unit of the
  current selection back on the previous selection. Let \<open>a\<close> be selected and hold the unit
  \<open>u\<close> of the active team, which has not played, and let \<open>b\<close> be a cell of the move area
  without a unit. When \<open>select\<close> of \<open>b\<close> succeeds, it has moved \<open>u\<close> from \<open>a\<close> to \<open>b\<close>,
  and \<open>move_undo\<close> afterwards raises nothing and gives back the occupancy and the
  coordinates of before the move: the cell \<open>a\<close> holds the unit again, the cell \<open>b\<close> holds
  nobody, every terrain and every unit is as it was. The stored undo path is cleared, and the
  selection is reset: no current and no previous selection, empty move and attack areas, no
  arrow.
\<close>

theorem undo_restores:
  assumes "curr_sel s = Some a"
    and "terrains s a = Some ta" and "unit ta = Some u" and "coord (units s u) = a"
    and "terrains s b = Some tb" and "unit tb = None"
    and "\<not> played (units s u)" and "is_mine (manager s) u"
    and "b \<in> set (move_area s)"
    and "fst (select pf s b) = None"
  shows "get_unit (snd (select pf s b)) b = Inr (Some u)
       \<and> coord (units (snd (select pf s b)) u) = b
       \<and> fst (move_undo (snd (select pf s b))) = None
       \<and> terrains (snd (move_undo (snd (select pf s b)))) = terrains s
       \<and> units (snd (move_undo (snd (select pf s b)))) = units s
       \<and> return_path (snd (move_undo (snd (select pf s b)))) = None
       \<and> curr_sel (snd (move_undo (snd (select pf s b)))) = None
       \<and> prev_sel (snd (move_undo (snd (select pf s b)))) = None
       \<and> move_area (snd (move_undo (snd (select pf s b)))) = []
       \<and> attack_area (snd (move_undo (snd (select pf s b)))) = []
       \<and> arrow (snd (move_undo (snd (select pf s b)))) = []"
proof -
  define s1 where "s1 = s\<lparr>prev_sel := Some a, curr_sel := Some b, arrow := []\<rparr>"
  define p where "p = shortest_path pf s1 a b (movement (units s1 u))"
  have ab: "a \<noteq> b"
    using assms(2,3,5,6) by auto
  have sel: "select pf s b =
               (case move pf s1 u b of (Some e, s2) \<Rightarrow> (Some e, s2) | (None, s2) \<Rightarrow> action_menu s2)"
    unfolding s1_def
    using assms(1,2,3,5,6,7,8,9) by (rule select_moves)
  have c1: "coord (units s1 u) = a"
    using assms(4) by (simp add: s1_def)
  have ta1: "terrains s1 a = Some ta" and tb1: "terrains s1 b = Some tb"
    using assms(2,5) by (simp_all add: s1_def)
  have ne: "p \<noteq> []"
  proof
    assume "p = []"
    then have "move pf s1 u b = (Some IndexError, s1)"
      using c1 ab tb1 assms(6) p_def
      by (simp add: move_def get_unit_def move_animation_def play_path_def)
    then have "fst (select pf s b) = Some IndexError"
      by (simp add: sel)
    with assms(10) show False by simp
  qed
  have m: "move pf s1 u b =
           (None, s1\<lparr>return_path := Some (rev (butlast p) @ [a]),
                     terrains := (terrains s1)(a \<mapsto> ta\<lparr>unit := None\<rparr>, b \<mapsto> tb\<lparr>unit := Some u\<rparr>),
                     units := (units s1)(u := (units s1 u)\<lparr>coord := b\<rparr>)\<rparr>)"
    using move_result [OF c1 ab tb1 assms(6) ta1 p_def [symmetric] ne] .
  have ra: "ta\<lparr>unit := Some u\<rparr> = ta"
    using assms(3) by (cases ta) simp
  have rb: "tb\<lparr>unit := None\<rparr> = tb"
    using assms(6) by (cases tb) simp
  have t: "(terrains s)(a \<mapsto> ta\<lparr>unit := Some u\<rparr>, b \<mapsto> tb\<lparr>unit := None\<rparr>) = terrains s"
    unfolding ra rb using assms(2,5) by (auto simp: fun_eq_iff)
  have us: "(units s)(u := (units s u)\<lparr>coord := a\<rparr>) = units s"
    using assms(4) by (auto simp: fun_eq_iff)
  define s2 where
    "s2 = s1\<lparr>return_path := Some (rev (butlast p) @ [a]),
             terrains := (terrains s1)(a \<mapsto> ta\<lparr>unit := None\<rparr>, b \<mapsto> tb\<lparr>unit := Some u\<rparr>),
             units := (units s1)(u := (units s1 u)\<lparr>coord := b\<rparr>)\<rparr>"
  have m2: "move pf s1 u b = (None, s2)"
    unfolding s2_def by (rule m)
  have am: "action_menu s2 = (None, s2\<lparr>vx := 0, vy := 0, menus := Suc (menus s2)\<rparr>)"
    by (simp add: action_menu_def s2_def s1_def Let_def)
  have res: "select pf s b = (None, s2\<lparr>vx := 0, vy := 0, menus := Suc (menus s2)\<rparr>)"
    by (simp add: sel m2 am)
  show ?thesis
    unfolding res
    using ab t us assms(4)
    by (simp add: s2_def s1_def move_undo_def curr_unit_def unit_at_def
        play_path_def set_unit_def unit_move_def reset_selection_def get_unit_def Let_def)
qed

theorem undo_restores_witness:
  "curr_sel duel_picked = Some (0, 0)
   \<and> terrains duel_picked (0, 0) = Some \<lparr>allowed = [''any''], unit = Some 0\<rparr>
   \<and> terrains duel_picked (0, 1) = Some \<lparr>allowed = [''any''], unit = None\<rparr>
   \<and> is_mine (manager duel_picked) 0 \<and> (0, 1) \<in> set (move_area duel_picked)
   \<and> fst (select spec_pathfinder duel_picked (0, 1)) = None
   \<and> fst (move_undo (snd (select spec_pathfinder duel_picked (0, 1)))) = None
   \<and> terrains (snd (move_undo (snd (select spec_pathfinder duel_picked (0, 1)))))
       = terrains duel_picked
   \<and> units (snd (move_undo (snd (select spec_pathfinder duel_picked (0, 1)))))
       = units duel_picked
   \<and> return_path (snd (move_undo (snd (select spec_pathfinder duel_picked (0, 1))))) = None
   \<and> curr_sel (snd (move_undo (snd (select spec_pathfinder duel_picked (0, 1))))) = None"
proof -
  have cs: "curr_sel duel_picked = Some (0, 0)"
    by (simp add: duel_picked_def)
  have ta: "terrains duel_picked (0, 0) = Some \<lparr>allowed = [''any''], unit = Some 0\<rparr>"
    by (simp add: duel_picked_def duel_terrains)
  have ua: "unit \<lparr>allowed = [''any''], unit = Some (0::nat)\<rparr> = Some 0"
    by simp
  have co: "coord (units duel_picked 0) = (0, 0)"
    by (simp add: duel_picked_def duel_fields duel_coords)
  have tb: "terrains duel_picked (0, 1) = Some \<lparr>allowed = [''any''], unit = None\<rparr>"
    by (simp add: duel_picked_def duel_terrains)
  have ub: "unit \<lparr>allowed = [''any''], unit = None :: uid option\<rparr> = None"
    by simp
  have np: "\<not> played (units duel_picked 0)"
    by (simp add: duel_picked_def duel_fields duel_coords)
  have mine: "is_mine (manager duel_picked) 0"
    by (simp add: duel_picked_def duel_fields duel_manager_def)
  have ma: "(0, 1) \<in> set (move_area duel_picked)"
    by (simp add: duel_picked_def)
  have ok: "fst (select spec_pathfinder duel_picked (0, 1)) = None"
    by code_simp
  show ?thesis
    using cs ta tb mine ma ok undo_restores [OF cs ta ua co tb ub np mine ma ok] by simp
qed

text \<open>
  The claim as stated fails for a move that was not made through the selection: on
  \<open>duel_map\<close> nothing is selected, \<open>move\<close> of unit 0 from (0, 0) to (0, 1) succeeds, and
  \<open>move_undo\<close> afterwards raises nothing but leaves the unit on (0, 1), the cell (0, 0)
  empty and the stored path in place.
\<close>

theorem undo_without_selection_counterexample:
  "prev_sel duel_map = None \<and> curr_sel duel_map = None
   \<and> coord (units duel_map 0) = (0, 0)
   \<and> fst (move spec_pathfinder duel_map 0 (0, 1)) = None
   \<and> fst (move_undo (snd (move spec_pathfinder duel_map 0 (0, 1)))) = None
   \<and> get_unit (snd (move_undo (snd (move spec_pathfinder duel_map 0 (0, 1))))) (0, 0) = Inr None
   \<and> get_unit (snd (move_undo (snd (move spec_pathfinder duel_map 0 (0, 1))))) (0, 1)
       = Inr (Some 0)
   \<and> coord (units (snd (move_undo (snd (move spec_pathfinder duel_map 0 (0, 1))))) 0) = (0, 1)
   \<and> return_path (snd (move_undo (snd (move spec_pathfinder duel_map 0 (0, 1)))))
       = Some [(0, 0), (0, 0)]"
  by code_simp

section \<open>Which cells block a unit\<close>

text \<open>
  C4, as the code has it. For a coordinate \<open>c\<close> that has a terrain:
  without a mover, \<open>is_obstacle\<close> answers \<open>False\<close> whatever the terrain is (also for the
  tag \<open>none\<close>); with a mover \<open>u\<close> and an occupant \<open>v\<close>, the answer is whether \<open>u\<close> and
  \<open>v\<close> are enemies; with a mover and no occupant, the answer is decided by the first tag of
  the terrain that is \<open>any\<close>, \<open>none\<close> or a tag the mover may cross: the cell blocks when
  that tag is \<open>none\<close> or when there is no such tag. So the single tag \<open>none\<close> blocks, the
  single tag \<open>any\<close> does not, and a terrain whose tags are neither \<open>any\<close> nor \<open>none\<close>
  blocks exactly when it shares no tag with the mover.
\<close>

theorem is_obstacle_blocks:
  assumes "terrains s c = Some t"
  shows "is_obstacle s c None = Inr False
       \<and> (\<forall>u v. unit t = Some v \<longrightarrow> is_obstacle s c (Some u) = Inr (enemy (manager s) u v))
       \<and> (\<forall>u. unit t = None \<longrightarrow>
             is_obstacle s c (Some u) =
               Inr (case find (\<lambda>a. a = ''any'' \<or> a = ''none''
                                    \<or> a \<in> set (allowed_terrains (units s u))) (allowed t) of
                      None \<Rightarrow> True
                    | Some a \<Rightarrow> a = ''none''))
       \<and> (\<forall>u. unit t = None \<and> allowed t = [''none''] \<longrightarrow> is_obstacle s c (Some u) = Inr True)
       \<and> (\<forall>u. unit t = None \<and> allowed t = [''any''] \<longrightarrow> is_obstacle s c (Some u) = Inr False)
       \<and> (\<forall>u. unit t = None \<and> ''any'' \<notin> set (allowed t) \<and> ''none'' \<notin> set (allowed t) \<longrightarrow>
             is_obstacle s c (Some u) =
               Inr (set (allowed t) \<inter> set (allowed_terrains (units s u)) = {}))"
proof -
  have 1: "is_obstacle s c None = Inr False"
    using assms by (rule is_obstacle_no_mover)
  have 2: "\<forall>u v. unit t = Some v \<longrightarrow> is_obstacle s c (Some u) = Inr (enemy (manager s) u v)"
    using assms by (simp add: is_obstacle_occupied)
  have 3: "\<forall>u. unit t = None \<longrightarrow>
             is_obstacle s c (Some u) =
               Inr (case find (\<lambda>a. a = ''any'' \<or> a = ''none''
                                    \<or> a \<in> set (allowed_terrains (units s u))) (allowed t) of
                      None \<Rightarrow> True
                    | Some a \<Rightarrow> a = ''none'')"
    using assms by (simp add: is_obstacle_empty allowed_loop_find)
  have 4: "\<forall>u. unit t = None \<and> allowed t = [''none''] \<longrightarrow> is_obstacle s c (Some u) = Inr True"
    using assms by (simp add: is_obstacle_empty)
  have 5: "\<forall>u. unit t = None \<and> allowed t = [''any''] \<longrightarrow> is_obstacle s c (Some u) = Inr False"
    using assms by (simp add: is_obstacle_empty)
  have 6: "\<forall>u. unit t = None \<and> ''any'' \<notin> set (allowed t) \<and> ''none'' \<notin> set (allowed t) \<longrightarrow>
             is_obstacle s c (Some u) =
               Inr (set (allowed t) \<inter> set (allowed_terrains (units s u)) = {})"
    using assms by (simp add: is_obstacle_empty allowed_loop_tags)
  from 1 2 3 4 5 6 show ?thesis by blast
qed

theorem is_obstacle_blocks_witness:
  "terrains wall_map (0, 0) = Some \<lparr>allowed = [''none''], unit = None\<rparr>
   \<and> is_obstacle wall_map (0, 0) None = Inr False
   \<and> is_obstacle wall_map (0, 0) (Some 0) = Inr True
   \<and> terrains duel_map (1, 0) = Some \<lparr>allowed = [''any''], unit = Some 1\<rparr>
   \<and> is_obstacle duel_map (1, 0) (Some 0) = Inr True
   \<and> is_obstacle duel_map (0, 0) (Some 0) = Inr False
   \<and> is_obstacle duel_map (0, 1) (Some 0) = Inr False"
  using is_obstacle_blocks [OF wall_terrain] is_obstacle_blocks [OF duel_terrains(2)]
    is_obstacle_blocks [OF duel_terrains(1)] is_obstacle_blocks [OF duel_terrains(3)]
  by (simp add: wall_terrain duel_terrains duel_fields duel_manager_def)

text \<open>
  The claim as stated fails without a mover: the cell of \<open>wall_map\<close> has the single tag
  \<open>none\<close> and no occupant, and \<open>is_obstacle\<close> answers \<open>False\<close>.
\<close>

theorem is_obstacle_no_mover_counterexample:
  "terrains wall_map (0, 0) = Some \<lparr>allowed = [''none''], unit = None\<rparr>
   \<and> is_obstacle wall_map (0, 0) None = Inr False
   \<and> is_obstacle wall_map (0, 0) None \<noteq> Inr True"
  by (simp add: wall_terrain is_obstacle_def are_enemies_def)

section \<open>The move-then-attack area\<close>

text \<open>
  C6 fails on the code. The attack area that \<open>move_attack_area\<close> stores is disjoint from
  the move area and lists no coordinate twice (\<open>move_attack_area_cells\<close>), but it is not the
  union of the rings of \<open>area\<close> minus the move area: \<open>__set_attack_area\<close> does not ask
  \<open>check_coord\<close>, so the rings are taken on the whole integer plane. On the 2 by 2 map with
  unit 0 on (0, 0), weapon range 1 and the move area (0, 0), (0, 1), the rings inside the grid
  minus the move area are the cells (1, 0) and (1, 1); the stored attack area has these two
  and four cells outside the grid.
\<close>

theorem move_attack_area_unclipped:
  "fst (move_attack_area duel_picked) = None
   \<and> move_area (snd (move_attack_area duel_picked)) = [(0, 0), (0, 1)]
   \<and> attack_area (snd (move_attack_area duel_picked))
       = [(- 1, 0), (0, - 1), (1, 0), (- 1, 1), (0, 2), (1, 1)]
   \<and> filter (\<lambda>p. p \<notin> set (move_area duel_picked))
        (remdups (concat (map (\<lambda>m. area duel_picked m 1 1) (move_area duel_picked))))
       = [(1, 0), (1, 1)]
   \<and> set (attack_area (snd (move_attack_area duel_picked)))
       \<noteq> set (filter (\<lambda>p. p \<notin> set (move_area duel_picked))
                (remdups (concat (map (\<lambda>m. area duel_picked m 1 1) (move_area duel_picked)))))"
  by code_simp

section \<open>Attack areas and the grid\<close>

text \<open>
  C7 fails on the code. \<open>area\<close> asks \<open>check_coord\<close> for every cell it lists, but
  \<open>__set_attack_area\<close> does not: on the 2 by 2 map with unit 0 on (0, 0), weapon range 1 and
  the move area (0, 0), (0, 1), both \<open>move_attack_area\<close> and \<open>still_attack_area\<close> store
  attack cells with a negative coordinate or beyond the last column and row.
\<close>

theorem attack_area_leaves_grid:
  "fst (move_attack_area duel_picked) = None
   \<and> attack_area (snd (move_attack_area duel_picked))
       = [(- 1, 0), (0, - 1), (1, 0), (- 1, 1), (0, 2), (1, 1)]
   \<and> \<not> check_coord (snd (move_attack_area duel_picked)) (- 1, 0)
   \<and> fst (still_attack_area duel_picked) = None
   \<and> attack_area (snd (still_attack_area duel_picked)) = [(- 1, 0), (0, - 1), (0, 1), (1, 0)]
   \<and> \<not> check_coord (snd (still_attack_area duel_picked)) (0, - 1)"
  by code_simp

section \<open>The ring around a centre\<close>

text \<open>
  C8. \<open>area s center radius hole\<close> lists exactly the coordinates inside the grid whose
  Manhattan distance to the centre is at least \<open>hole\<close> and at most \<open>radius\<close>, each of them
  once. For \<open>hole = radius = 1\<close> around a centre whose four orthogonal neighbours are inside
  the grid, these are the four neighbours and nothing else.
\<close>

theorem area_is_ring:
  "set (area s c r hl) = {p. check_coord s p \<and> hl \<le> distance c p \<and> distance c p \<le> r}
   \<and> distinct (area s c r hl)
   \<and> (1 \<le> x \<and> x + 1 < w s \<and> 1 \<le> y \<and> y + 1 < h s \<longrightarrow>
        area s (x, y) 1 1 = [(x - 1, y), (x, y - 1), (x, y + 1), (x + 1, y)])"
  by (simp add: set_area distinct_area area_interior)

theorem area_is_ring_witness:
  "(1::int) \<le> 2 \<and> 2 + 1 < w grid5 \<and> 2 + 1 < h grid5
   \<and> area grid5 (2, 2) 1 1 = [(1, 2), (2, 1), (2, 3), (3, 2)]"
proof -
  have g: "w grid5 = 5" "h grid5 = 5"
    by (simp_all add: grid5_def init_map_def)
  show ?thesis
    using area_is_ring [of grid5 "(2, 2)" 1 1 2 2] by (simp add: g)
qed

section \<open>The first pick\<close>

text \<open>
  C5, as the code has it. When nothing was selected before, \<open>select\<close> of a coordinate that
  has a terrain raises nothing and
  \<^item> clears both areas when the cell holds no unit or a unit that has played;
  \<^item> otherwise, for a unit that has not played, of whichever team, stores the pathfinder's
    area for that unit as move area and the move-then-attack area of its weapon as attack
    area.
  The roster is not asked whether the unit belongs to the active team.
\<close>

theorem select_first_pick:
  assumes "curr_sel s = None" and "terrains s c = Some t"
  shows "(unit t = None \<longrightarrow>
            select pf s c =
              (None, s\<lparr>prev_sel := None, curr_sel := Some c, arrow := [],
                       move_area := [], attack_area := []\<rparr>))
       \<and> (\<forall>u. unit t = Some u \<and> played (units s u) \<longrightarrow>
            select pf s c =
              (None, s\<lparr>prev_sel := None, curr_sel := Some c, arrow := [],
                       move_area := [], attack_area := []\<rparr>))
       \<and> (\<forall>u mn mx. unit t = Some u \<and> \<not> played (units s u)
                      \<and> weapon_range (units s u) = (mn, mx) \<longrightarrow>
            fst (select pf s c) = None
            \<and> move_area (snd (select pf s c)) =
                area_of pf (s\<lparr>prev_sel := None, curr_sel := Some c, arrow := []\<rparr>) c
                  (movement (units s u))
            \<and> set (attack_area (snd (select pf s c))) =
                (\<Union>m\<in>set (move_area (snd (select pf s c))).
                    {p. mn \<le> distance m p \<and> distance m p \<le> mx})
                - set (move_area (snd (select pf s c))))"
proof -
  have 1: "unit t = None \<longrightarrow>
            select pf s c =
              (None, s\<lparr>prev_sel := None, curr_sel := Some c, arrow := [],
                       move_area := [], attack_area := []\<rparr>)"
    using assms by (simp add: select_first_empty)
  have 2: "\<forall>u. unit t = Some u \<and> played (units s u) \<longrightarrow>
            select pf s c =
              (None, s\<lparr>prev_sel := None, curr_sel := Some c, arrow := [],
                       move_area := [], attack_area := []\<rparr>)"
    using assms by (simp add: select_first_played)
  have 3: "fst (select pf s c) = None
            \<and> move_area (snd (select pf s c)) =
                area_of pf (s\<lparr>prev_sel := None, curr_sel := Some c, arrow := []\<rparr>) c
                  (movement (units s u))
            \<and> set (attack_area (snd (select pf s c))) =
                (\<Union>m\<in>set (move_area (snd (select pf s c))).
                    {p. mn \<le> distance m p \<and> distance m p \<le> mx})
                - set (move_area (snd (select pf s c)))"
    if h: "unit t = Some u" "\<not> played (units s u)" "weapon_range (units s u) = (mn, mx)"
    for u mn mx
  proof -
    define s1 where
      "s1 = s\<lparr>prev_sel := None, curr_sel := Some c, arrow := [],
               move_area := area_of pf (s\<lparr>prev_sel := None, curr_sel := Some c, arrow := []\<rparr>) c
                              (movement (units s u))\<rparr>"
    have e: "select pf s c = move_attack_area s1"
      unfolding s1_def using assms h(1,2) by (rule select_first_fresh)
    have cu: "curr_unit s1 = Some u"
      using assms(2) h(1) by (simp add: s1_def curr_unit_def unit_at_def)
    have wr: "weapon_range (units s1 u) = (mn, mx)"
      using h(3) by (simp add: s1_def)
    have ma: "move_area s1 =
                area_of pf (s\<lparr>prev_sel := None, curr_sel := Some c, arrow := []\<rparr>) c
                  (movement (units s u))"
      by (simp add: s1_def)
    show ?thesis
      unfolding e using move_attack_area_cells [OF cu wr] ma by simp
  qed
  from 1 2 3 show ?thesis by blast
qed

theorem select_first_pick_witness:
  "curr_sel duel_map = None
   \<and> terrains duel_map (0, 1) = Some \<lparr>allowed = [''any''], unit = None\<rparr>
   \<and> select spec_pathfinder duel_map (0, 1) =
       (None, duel_map\<lparr>prev_sel := None, curr_sel := Some (0, 1), arrow := [],
                       move_area := [], attack_area := []\<rparr>)
   \<and> terrains duel_map (0, 0) = Some \<lparr>allowed = [''any''], unit = Some 0\<rparr>
   \<and> \<not> played (units duel_map 0) \<and> weapon_range (units duel_map 0) = (1, 1)
   \<and> fst (select spec_pathfinder duel_map (0, 0)) = None"
proof -
  have cs: "curr_sel duel_map = None"
    by (simp add: duel_fields)
  have f: "\<not> played (units duel_map 0)" "weapon_range (units duel_map 0) = (1, 1)"
    by (simp_all add: duel_fields duel_coords)
  show ?thesis
    using cs f select_first_pick [OF cs duel_terrains(3), of spec_pathfinder]
      select_first_pick [OF cs duel_terrains(1), of spec_pathfinder]
    by (simp add: duel_terrains)
qed

text \<open>
  The claim as stated fails for a unit of another team: unit 1 is not of the active team and
  has not played; selecting its cell first computes both areas.
\<close>

theorem select_enemy_counterexample:
  "curr_sel duel_map = None
   \<and> get_unit duel_map (1, 0) = Inr (Some 1)
   \<and> \<not> is_mine (manager duel_map) 1
   \<and> \<not> played (units duel_map 1)
   \<and> fst (select spec_pathfinder duel_map (1, 0)) = None
   \<and> move_area (snd (select spec_pathfinder duel_map (1, 0))) = [(1, 0), (1, 1)]
   \<and> attack_area (snd (select spec_pathfinder duel_map (1, 0)))
       = [(0, 0), (1, - 1), (2, 0), (0, 1), (1, 2), (2, 1)]"
  by code_simp

section \<open>Looking up a cell\<close>

text \<open>
  C9, as the code has it. \<open>self[coord]\<close> is a dictionary lookup in \<open>self.terrains\<close>, and
  \<open>__init__\<close> stores a terrain only for the cells that have a tile in some tile layer. On the
  map as loaded, the lookup succeeds exactly for the coordinates at which some tile layer has
  a tile, and raises KeyError for every other coordinate. When every cell of the layers lies
  inside the grid, a coordinate outside the grid is therefore always rejected with KeyError
  and never clamped; a coordinate inside the grid that has no tile is rejected as well.
\<close>

theorem getitem_loaded:
  "((\<exists>t. getitem (init_map wd ht layers g us um) (x, y) = Inr t)
      = (\<exists>cells tile. Layer cells \<in> set layers \<and> (x, y, Some tile) \<in> set cells))
   \<and> ((\<nexists>cells tile. Layer cells \<in> set layers \<and> (x, y, Some tile) \<in> set cells) \<longrightarrow>
        getitem (init_map wd ht layers g us um) (x, y) = Inl KeyError)
   \<and> ((\<forall>cells i j tl. Layer cells \<in> set layers \<and> (i, j, tl) \<in> set cells \<longrightarrow>
          0 \<le> i \<and> i < wd \<and> 0 \<le> j \<and> j < ht) \<longrightarrow>
        \<not> check_coord (init_map wd ht layers g us um) (x, y) \<longrightarrow>
        getitem (init_map wd ht layers g us um) (x, y) = Inl KeyError)"
proof -
  let ?s = "init_map wd ht layers g us um"
  have d: "dom (terrains ?s) =
             {(x, y). \<exists>cells tile. Layer cells \<in> set layers \<and> (x, y, Some tile) \<in> set cells}"
    by (simp add: init_map_def dom_load_terrains)
  have 1: "(\<exists>t. getitem ?s (x, y) = Inr t)
             = (\<exists>cells tile. Layer cells \<in> set layers \<and> (x, y, Some tile) \<in> set cells)"
    unfolding getitem_dom d by simp
  have 2: "(\<nexists>cells tile. Layer cells \<in> set layers \<and> (x, y, Some tile) \<in> set cells) \<longrightarrow>
             getitem ?s (x, y) = Inl KeyError"
  proof
    assume "\<nexists>cells tile. Layer cells \<in> set layers \<and> (x, y, Some tile) \<in> set cells"
    then have "(x, y) \<notin> dom (terrains ?s)"
      unfolding d by simp
    then show "getitem ?s (x, y) = Inl KeyError"
      by (rule getitem_missing)
  qed
  have 3: "(\<forall>cells i j tl. Layer cells \<in> set layers \<and> (i, j, tl) \<in> set cells \<longrightarrow>
              0 \<le> i \<and> i < wd \<and> 0 \<le> j \<and> j < ht) \<longrightarrow>
           \<not> check_coord ?s (x, y) \<longrightarrow> getitem ?s (x, y) = Inl KeyError"
  proof (intro impI)
    assume b: "\<forall>cells i j tl. Layer cells \<in> set layers \<and> (i, j, tl) \<in> set cells \<longrightarrow>
              0 \<le> i \<and> i < wd \<and> 0 \<le> j \<and> j < ht"
      and n: "\<not> check_coord ?s (x, y)"
    have "\<nexists>cells tile. Layer cells \<in> set layers \<and> (x, y, Some tile) \<in> set cells"
    proof
      assume "\<exists>cells tile. Layer cells \<in> set layers \<and> (x, y, Some tile) \<in> set cells"
      then obtain cells tile where "Layer cells \<in> set layers" "(x, y, Some tile) \<in> set cells"
        by blast
      with b have "0 \<le> x \<and> x < wd \<and> 0 \<le> y \<and> y < ht"
        by blast
      with n show False
        by (simp add: check_coord_def init_map_def)
    qed
    with 2 show "getitem ?s (x, y) = Inl KeyError"
      by blast
  qed
  from 1 2 3 show ?thesis by blast
qed

theorem getitem_loaded_witness:
  "getitem duel_map (1, 1) = Inr \<lparr>allowed = [''any''], unit = None\<rparr>
   \<and> \<not> check_coord duel_map (2, 0)
   \<and> getitem duel_map (2, 0) = Inl KeyError
   \<and> getitem hole_map (0, 0) = Inl KeyError"
proof -
  have a: "\<not> check_coord duel_map (2, 0)"
    by (simp add: check_coord_def duel_fields)
  have b: "getitem duel_map (1, 1) = Inr \<lparr>allowed = [''any''], unit = None\<rparr>"
    by (simp add: getitem_def duel_terrains)
  have c: "getitem duel_map (2, 0) = Inl KeyError"
    using a
      getitem_loaded [of 2 2 "[Layer [(0, 0, Some [''any'']), (1, 0, Some [''any'']),
               (0, 1, Some [''any'']), (1, 1, Some [''any''])]]"
        "\<lambda>c. filter (\<lambda>u. coord (duel_units u) = c) [0, 1]" duel_units duel_manager 2 0]
    unfolding duel_map_def [symmetric] by simp
  have d: "getitem hole_map (0, 0) = Inl KeyError"
    using getitem_loaded [of 1 1 "[Layer [(0, 0, None)]]" "\<lambda>c. []" duel_units duel_manager 0 0]
    unfolding hole_map_def [symmetric] by simp
  show ?thesis
    using a b c d by simp
qed

text \<open>
  The claim as stated fails inside the grid: the only cell of \<open>hole_map\<close> has no tile, its
  coordinate passes \<open>check_coord\<close>, and the lookup raises KeyError.
\<close>

theorem getitem_in_bounds_counterexample:
  "check_coord hole_map (0, 0) \<and> getitem hole_map (0, 0) = Inl KeyError"
  by (simp add: hole_map_def init_map_def check_coord_def getitem_def load_terrains_def
      add_cell_def)

end
